theory Spec2Isabelle
  imports Main "HOL-Library.Sublist"
begin

section \<open>Path Resolver\<close>

text \<open>
  \<^verbatim>\<open>location.split('-')[0]\<close>: the part of the location before its first hyphen, the whole
  location when it has none.
\<close>

definition segment :: "string \<Rightarrow> string" where
  "segment location = takeWhile (\<lambda>c. c \<noteq> CHR ''-'') location"

text \<open>
  The options object is read only through the truthiness of \<^verbatim>\<open>options.old\<close>.
\<close>

record options =
  old :: bool

text \<open>
  \<^verbatim>\<open>BASE_PATH\<close> comes from the configuration module, which is outside this file: it is the
  first parameter of every path function below.
\<close>

definition computeModulesPath :: "string \<Rightarrow> string \<Rightarrow> options \<Rightarrow> string \<Rightarrow> string" where
  "computeModulesPath BASE_PATH location opts moduleName =
     (if old opts \<or> (moduleName = [] \<and> segment location = ''server'')
      then BASE_PATH @ ''/packages/'' @ segment location @ ''/src/modules/'' @ moduleName
      else if moduleName = []
        then BASE_PATH @ ''/packages/'' @ segment location @ ''/src/''
        else BASE_PATH @ ''/modules/'' @ moduleName @ ''/'' @ location)"

definition computeRootModulesPath :: "string \<Rightarrow> string \<Rightarrow> string" where
  "computeRootModulesPath BASE_PATH moduleName = BASE_PATH @ ''/modules/'' @ moduleName"

definition computePackagePath :: "string \<Rightarrow> string \<Rightarrow> string" where
  "computePackagePath BASE_PATH location =
     BASE_PATH @ ''/packages/'' @ segment location @ ''/package.json''"

section \<open>Field-Type Mapper\<close>

text \<open>
  The constructors \<^verbatim>\<open>generateField\<close> compares a field's type with: the built-ins
  \<^verbatim>\<open>Boolean\<close>, \<^verbatim>\<open>String\<close>, \<^verbatim>\<open>Date\<close> and the classes of the schema library; \<open>OtherT\<close> stands
  for every other constructor.
\<close>

datatype ctor = BooleanT | IDT | IntT | FloatT | StringT | DateT | DateTimeT | TimeT | OtherT nat

text \<open>
  A class as \<^verbatim>\<open>generateField\<close> sees it: its own identity and the constructors whose prototype
  lies on the prototype chain of its prototype (its proper ancestors).
\<close>

record jsclass =
  self :: ctor
  ancestors :: "ctor list"

record schema_field =
  ftype :: jsclass
  optional :: bool

text \<open>
  \<^verbatim>\<open>value.type === targetType || value.type.prototype instanceof targetType\<close>
\<close>

definition hasTypeOf :: "schema_field \<Rightarrow> ctor \<Rightarrow> bool" where
  "hasTypeOf v targetType \<longleftrightarrow>
     self (ftype v) = targetType \<or> targetType \<in> set (ancestors (ftype v))"

definition generateField :: "schema_field \<Rightarrow> bool \<Rightarrow> string" where
  "generateField v update =
     (let result =
        (if hasTypeOf v BooleanT then ''Boolean''
         else if hasTypeOf v IDT then ''ID''
         else if hasTypeOf v IntT then ''Int''
         else if hasTypeOf v FloatT then ''Float''
         else if hasTypeOf v StringT then ''String''
         else if hasTypeOf v DateT then ''Date''
         else if hasTypeOf v DateTimeT then ''DateTime''
         else if hasTypeOf v TimeT then ''Time''
         else [])
      in if \<not> update \<and> \<not> optional v then result @ ''!'' else result)"

text \<open>The recognised kinds, and a field that matches none of them.\<close>

definition recognised :: "ctor list" where
  "recognised = [BooleanT, IDT, IntT, FloatT, StringT, DateT, DateTimeT, TimeT]"

definition unmatched :: "schema_field \<Rightarrow> bool" where
  "unmatched v \<longleftrightarrow> list_all (\<lambda>t. \<not> hasTypeOf v t) recognised"

section \<open>JavaScript strings\<close>

text \<open>
  Strings are lists of characters with codes below 256. \<open>js_space\<close> is the white space and
  line terminators that \<^verbatim>\<open>trim\<close> strips and the class \<^verbatim>\<open>\s\<close> matches (tab, line feed,
  vertical tab, form feed, carriage return, space, no-break space); \<open>js_dot\<close> is the class
  \<^verbatim>\<open>.\<close>: every character but line feed and carriage return.
\<close>

definition js_space :: "char \<Rightarrow> bool" where
  "js_space c \<longleftrightarrow> c \<in> set [CHR 0x09, CHR 0x0A, CHR 0x0B, CHR 0x0C, CHR 0x0D, CHR 0x20, CHR 0xA0]"

definition js_dot :: "char \<Rightarrow> bool" where
  "js_dot c \<longleftrightarrow> c \<noteq> CHR 0x0A \<and> c \<noteq> CHR 0x0D"

definition trim :: "string \<Rightarrow> string" where
  "trim s = rev (dropWhile js_space (rev (dropWhile js_space s)))"

text \<open>\<^verbatim>\<open>s.lastIndexOf(pat)\<close>: the greatest index where \<open>pat\<close> starts in \<open>s\<close>, or -1.\<close>

definition lastIndexOf :: "string \<Rightarrow> string \<Rightarrow> int" where
  "lastIndexOf s pat =
     (case filter (\<lambda>i. prefix pat (drop i s)) (rev [0 ..< Suc (length s)]) of
        [] \<Rightarrow> - 1
      | i # _ \<Rightarrow> int i)"



subsection \<open>Replacement patterns\<close>

text \<open>
  The captures of a match: the text of each capture group that took part in it.
\<close>

type_synonym caps = "nat \<Rightarrow> string option"

definition is_digit :: "char \<Rightarrow> bool" where
  "is_digit c \<longleftrightarrow> 48 \<le> (of_char c :: nat) \<and> (of_char c :: nat) \<le> 57"

definition digit_val :: "char \<Rightarrow> nat" where
  "digit_val c = of_char c - 48"

definition capture :: "caps \<Rightarrow> nat \<Rightarrow> string" where
  "capture cp i = (case cp i of None \<Rightarrow> [] | Some t \<Rightarrow> t)"

text \<open>
  The replacement string of \<^verbatim>\<open>String.prototype.replace\<close> is a template: \<^verbatim>\<open>$$\<close> stands for a
  dollar sign, \<^verbatim>\<open>$&\<close> for the matched text, \<^verbatim>\<open>$`\<close> and \<^verbatim>\<open>$'\<close> for the text before and
  after the match, \<^verbatim>\<open>$n\<close> and \<^verbatim>\<open>$nn\<close> for a capture group when the pattern has that many
  groups (\<open>m\<close> of them); every other character stands for itself.
\<close>

fun get_substitution :: "string \<Rightarrow> string \<Rightarrow> string \<Rightarrow> caps \<Rightarrow> nat \<Rightarrow> string \<Rightarrow> string" where
  "get_substitution matched pre post cp m [] = []"
| "get_substitution matched pre post cp m [c] = [c]"
| "get_substitution matched pre post cp m (c # d # r) =
     (if c \<noteq> CHR ''$'' then c # get_substitution matched pre post cp m (d # r)
      else if d = CHR ''$'' then CHR ''$'' # get_substitution matched pre post cp m r
      else if d = CHR ''&'' then matched @ get_substitution matched pre post cp m r
      else if d = CHR 0x60 then pre @ get_substitution matched pre post cp m r
      else if d = CHR 0x27 then post @ get_substitution matched pre post cp m r
      else if is_digit d then
        (case r of
           e # r' \<Rightarrow>
             if is_digit e \<and> 10 * digit_val d + digit_val e \<le> m then
               (if 1 \<le> 10 * digit_val d + digit_val e
                then capture cp (10 * digit_val d + digit_val e)
                       @ get_substitution matched pre post cp m r'
                else c # d # e # get_substitution matched pre post cp m r')
             else if 1 \<le> digit_val d \<and> digit_val d \<le> m
               then capture cp (digit_val d) @ get_substitution matched pre post cp m r
               else c # d # get_substitution matched pre post cp m r
         | [] \<Rightarrow>
             if 1 \<le> digit_val d \<and> digit_val d \<le> m
             then capture cp (digit_val d)
             else [c, d])
      else c # get_substitution matched pre post cp m (d # r))"

subsection \<open>Regular expressions\<close>

text \<open>
  The fragment of regular expressions the patterns of this file use: the empty pattern,
  literal text, a character class, sequence, ordered alternative, one or more characters of
  a class (greedy), a numbered capture group and a negative lookahead.
\<close>

datatype rx = Eps | Lit string | Cls "char \<Rightarrow> bool" | Seq rx rx | Alt rx rx
  | PlusCls "char \<Rightarrow> bool" | Grp nat rx | NegLook rx

text \<open>
  Backtracking matching with a continuation: \<open>bt r s cp k\<close> matches \<open>r\<close> at the start of
  \<open>s\<close> and hands the rest of the text to \<open>k\<close>; when \<open>k\<close> fails the next way of matching \<open>r\<close>
  is tried, the first alternative before the second and the longest repetition first.
\<close>

fun star_cls :: "(char \<Rightarrow> bool) \<Rightarrow> string \<Rightarrow> (string \<Rightarrow> 'r option) \<Rightarrow> 'r option" where
  "star_cls p [] k = k []"
| "star_cls p (c # cs) k =
     (if p c then (case star_cls p cs k of Some r \<Rightarrow> Some r | None \<Rightarrow> k (c # cs))
      else k (c # cs))"

fun bt :: "rx \<Rightarrow> string \<Rightarrow> caps \<Rightarrow> (string \<Rightarrow> caps \<Rightarrow> (string \<times> caps) option)
            \<Rightarrow> (string \<times> caps) option" where
  "bt Eps s cp k = k s cp"
| "bt (Lit l) s cp k = (if prefix l s then k (drop (length l) s) cp else None)"
| "bt (Cls p) s cp k = (case s of [] \<Rightarrow> None | c # cs \<Rightarrow> if p c then k cs cp else None)"
| "bt (Seq a b) s cp k = bt a s cp (\<lambda>s' cp'. bt b s' cp' k)"
| "bt (Alt a b) s cp k = (case bt a s cp k of Some r \<Rightarrow> Some r | None \<Rightarrow> bt b s cp k)"
| "bt (PlusCls p) s cp k =
     (case s of [] \<Rightarrow> None
      | c # cs \<Rightarrow> if p c then star_cls p cs (\<lambda>s'. k s' cp) else None)"
| "bt (Grp n a) s cp k =
     bt a s cp (\<lambda>s' cp'. k s' (cp'(n \<mapsto> take (length s - length s') s)))"
| "bt (NegLook a) s cp k =
     (case bt a s cp (\<lambda>s' cp'. Some (s', cp')) of Some _ \<Rightarrow> None | None \<Rightarrow> k s cp)"

definition rx_exec :: "rx \<Rightarrow> string \<Rightarrow> (string \<times> caps) option" where
  "rx_exec r s = bt r s Map.empty (\<lambda>s' cp. Some (s', cp))"

text \<open>
  \<^verbatim>\<open>s.replace(regex, replacement)\<close> for a regular expression with the flag \<^verbatim>\<open>g\<close> and \<open>m\<close>
  capture groups: the text is scanned from the left, every match is replaced by the
  expansion of the template and the scan goes on behind it. \<open>skip\<close> counts the characters
  of the current match still to pass, \<open>bef\<close> is the text already passed, reversed.
\<close>

fun replace_go :: "rx \<Rightarrow> nat \<Rightarrow> string \<Rightarrow> nat \<Rightarrow> string \<Rightarrow> string \<Rightarrow> string" where
  "replace_go r m t skip bef [] =
     (case rx_exec r [] of
        None \<Rightarrow> []
      | Some (rest, cp) \<Rightarrow> if skip = 0 then get_substitution [] (rev bef) [] cp m t else [])"
| "replace_go r m t (Suc n) bef (c # cs) = replace_go r m t n (c # bef) cs"
| "replace_go r m t 0 bef (c # cs) =
     (case rx_exec r (c # cs) of
        None \<Rightarrow> c # replace_go r m t 0 (c # bef) cs
      | Some (rest, cp) \<Rightarrow>
          (let n = length (c # cs) - length rest;
               out = get_substitution (take n (c # cs)) (rev bef) rest cp m t
           in if n = 0 then out @ c # replace_go r m t 0 (c # bef) cs
              else out @ replace_go r m t (n - 1) (c # bef) cs))"

definition replace_all :: "rx \<Rightarrow> nat \<Rightarrow> string \<Rightarrow> string \<Rightarrow> string" where
  "replace_all r m t s = replace_go r m t 0 [] s"



section \<open>Template Materializer\<close>

text \<open>
  What lies below the working directory: a file with its content or a directory at a path,
  the paths relative to the working directory with \<^verbatim>\<open>/\<close> between the components.
\<close>

datatype node = File string | Dir

type_synonym filesystem = "string \<Rightarrow> node option"


subsection \<open>Paths\<close>








subsection \<open>The shell commands\<close>






subsection \<open>renameFiles\<close>

text \<open>
  The renderings of the module name that \<^verbatim>\<open>renameFiles\<close> substitutes. Five of them are
  computed by library functions outside this file (\<^verbatim>\<open>decamelize\<close>, \<^verbatim>\<open>pascalize\<close>,
  \<^verbatim>\<open>startCase\<close>, \<^verbatim>\<open>toUpperCase\<close>), so the model takes the six strings as they are.
\<close>

record renderings =
  moduleName :: string
  decamelized :: string
  dashed :: string
  Module :: string
  startCased :: string
  upperCased :: string












section \<open>Export-File Patcher\<close>

text \<open>
  The export file is a file of the file system. Reading a directory as a file fails, and so
  does the compilation of a pattern that is not well formed.
\<close>

datatype io_error = EISDIR | SyntaxError

definition exportGraphqlContainer :: "string \<Rightarrow> string" where
  "exportGraphqlContainer exportName =
     ''\<newline>export default {\<newline>  '' @ exportName @ ''\<newline>};\<newline>''"

text \<open>The pattern \<^verbatim>\<open>/(,|)\s};/g\<close> and the template that replaces its matches.\<close>

definition tail_rx :: rx where
  "tail_rx = Seq (Grp 1 (Alt (Lit '','') Eps)) (Seq (Cls js_space) (Lit ''};''))"

definition tail_template :: "string \<Rightarrow> string" where
  "tail_template exportName = '',\<newline>  '' @ exportName @ ''\<newline>};''"

text \<open>
  In the source \<^verbatim>\<open>computedIndex\<close> is \<^verbatim>\<open>index + 3\<close> when \<^verbatim>\<open>index >= 0\<close> and \<^verbatim>\<open>false\<close> otherwise,
  and the test \<^verbatim>\<open>if (computedIndex)\<close> asks whether it is truthy: as \<^verbatim>\<open>index + 3\<close> is never
  zero, that is the test \<^verbatim>\<open>index >= 0\<close>. Both ways out of the two tests end in the same
  last statement, the write of the import string and a fresh export block.
\<close>

definition updateFileWithExports ::
    "filesystem \<Rightarrow> string \<Rightarrow> string \<Rightarrow> string \<Rightarrow> io_error + filesystem" where
  "updateFileWithExports fs pathToFileWithExports exportName importString =
     (case fs pathToFileWithExports of
        None \<Rightarrow> Inr fs
      | Some Dir \<Rightarrow> Inl EISDIR
      | Some (File generatedContainerData) \<Rightarrow>
          (let generatedContainer = trim generatedContainerData;
               fresh = Inr (fs(pathToFileWithExports \<mapsto>
                         File (importString @ exportGraphqlContainer exportName)))
           in if length generatedContainer > 1 then
                (let index = lastIndexOf generatedContainer [CHR 0x27, CHR '';'']
                 in if index \<ge> 0 then
                      (let computedIndex = nat (index + 3);
                           computedGeneratedContainer =
                             take computedIndex generatedContainer @ importString
                               @ drop computedIndex generatedContainer
                       in Inr (fs(pathToFileWithExports \<mapsto>
                            File (replace_all tail_rx 1 (tail_template exportName)
                                    computedGeneratedContainer))))
                    else fresh)
              else fresh))"

text \<open>
  The pattern of \<^verbatim>\<open>deleteFromFileWithExports\<close>,
  \<^verbatim>\<open>(\n\s\sNAME(.|)|import (NAME|{ NAME }).+;\n+(?!ex))\<close>, for an export name \<^verbatim>\<open>NAME\<close> of
  letters, digits and underscores: spliced into the source text of the pattern, such a name
  stands for itself.
\<close>

definition word_char :: "char \<Rightarrow> bool" where
  "word_char c \<longleftrightarrow>
     (let n = (of_char c :: nat)
      in (48 \<le> n \<and> n \<le> 57) \<or> (65 \<le> n \<and> n \<le> 90) \<or> (97 \<le> n \<and> n \<le> 122) \<or> n = 95)"

definition delete_rx :: "string \<Rightarrow> rx" where
  "delete_rx exportName =
     Grp 1 (Alt
       (Seq (Lit ''\<newline>'') (Seq (Cls js_space) (Seq (Cls js_space)
          (Seq (Lit exportName) (Grp 2 (Alt (Cls js_dot) Eps))))))
       (Seq (Lit ''import '')
          (Seq (Grp 3 (Alt (Lit exportName) (Lit (''{ '' @ exportName @ '' }''))))
             (Seq (PlusCls js_dot) (Seq (Lit '';'')
                (Seq (PlusCls (\<lambda>c. c = CHR 0x0A)) (NegLook (Lit ''ex''))))))))"

text \<open>
  \<^verbatim>\<open>data.replace(new RegExp(reg, 'g'), '')\<close>, where \<^verbatim>\<open>reg\<close> is the source text with the export
  name spliced in. A name with other characters than letters, digits and underscores can
  change the pattern itself or make the constructor throw a \<^verbatim>\<open>SyntaxError\<close>; what the
  replacement returns for such a name is not worked out here but taken as given:
  \<open>spliced exportName data\<close> is the text it returns, and nothing when the constructor throws.
\<close>

definition delete_entry :: "(string \<Rightarrow> string \<Rightarrow> string option) \<Rightarrow> string \<Rightarrow> string \<Rightarrow> string option" where
  "delete_entry spliced exportName data =
     (if list_all word_char exportName
      then Some (replace_all (delete_rx exportName) 3 [] data)
      else spliced exportName data)"

text \<open>
  \<^verbatim>\<open>runPrettier\<close> hands an existing file to the formatter, an external tool: \<open>prettier\<close> is
  the content the tool leaves for a given content.
\<close>

definition runPrettier :: "(string \<Rightarrow> string) \<Rightarrow> filesystem \<Rightarrow> string \<Rightarrow> filesystem" where
  "runPrettier prettier fs pathToFile =
     (case fs pathToFile of
        Some (File c) \<Rightarrow> fs(pathToFile \<mapsto> File (prettier c))
      | _ \<Rightarrow> fs)"

definition deleteFromFileWithExports ::
    "(string \<Rightarrow> string \<Rightarrow> string option) \<Rightarrow> (string \<Rightarrow> string) \<Rightarrow> filesystem \<Rightarrow> string \<Rightarrow> string
       \<Rightarrow> io_error + filesystem" where
  "deleteFromFileWithExports spliced prettier fs pathToFileWithExports exportName =
     (case fs pathToFileWithExports of
        None \<Rightarrow> Inr fs
      | Some Dir \<Rightarrow> Inl EISDIR
      | Some (File generatedElementData) \<Rightarrow>
          (case delete_entry spliced exportName generatedElementData of
             None \<Rightarrow> Inl SyntaxError
           | Some generatedElement \<Rightarrow>
               Inr (runPrettier prettier
                      (fs(pathToFileWithExports \<mapsto> File generatedElement))
                      pathToFileWithExports)))"

text \<open>An entry is added and then removed again, as long as no step fails.\<close>

definition add_then_remove ::
    "(string \<Rightarrow> string \<Rightarrow> string option) \<Rightarrow> (string \<Rightarrow> string) \<Rightarrow> filesystem \<Rightarrow> string \<Rightarrow> string
       \<Rightarrow> string \<Rightarrow> io_error + filesystem" where
  "add_then_remove spliced prettier fs pathToFileWithExports exportName importString =
     (case updateFileWithExports fs pathToFileWithExports exportName importString of
        Inl err \<Rightarrow> Inl err
      | Inr fs' \<Rightarrow>
          deleteFromFileWithExports spliced prettier fs' pathToFileWithExports exportName)"

section \<open>Path Resolver: results\<close>

text \<open>
  C2 (as amended). With the legacy flag set, \<^verbatim>\<open>computeModulesPath('server', {old: true}, 'Billing')\<close>
  is the legacy path \<^verbatim>\<open><base>/packages/server/src/modules/Billing\<close>; without it,
  \<^verbatim>\<open>computeModulesPath('server', {}, 'Billing')\<close> is the per-module path
  \<^verbatim>\<open><base>/modules/Billing/server\<close>; and \<^verbatim>\<open>computeModulesPath('server', {}, '')\<close> is the
  legacy modules directory \<^verbatim>\<open><base>/packages/server/src/modules/\<close>, because an empty
  module name with the leading segment \<^verbatim>\<open>server\<close> takes the first branch.
\<close>

theorem computeModulesPath_server_forms:
  "computeModulesPath base ''server'' \<lparr>old = True\<rparr> ''Billing''
     = base @ ''/packages/server/src/modules/Billing''
   \<and> computeModulesPath base ''server'' \<lparr>old = False\<rparr> ''Billing''
     = base @ ''/modules/Billing/server''
   \<and> computeModulesPath base ''server'' \<lparr>old = False\<rparr> ''''
     = base @ ''/packages/server/src/modules/''"
  by (simp add: computeModulesPath_def segment_def)

text \<open>
  C2, as the claim states it, fails in its third part: for the base \<^verbatim>\<open>/app\<close> the result of
  \<^verbatim>\<open>computeModulesPath('server', {}, '')\<close> is not \<^verbatim>\<open>/app/packages/server/src/\<close>.
\<close>

theorem computeModulesPath_server_empty_counterexample:
  "computeModulesPath ''/app'' ''server'' \<lparr>old = False\<rparr> '''' \<noteq> ''/app/packages/server/src/''
   \<and> computeModulesPath ''/app'' ''server'' \<lparr>old = False\<rparr> '''' = ''/app/packages/server/src/modules/''"
  by (simp add: computeModulesPath_def segment_def)

text \<open>
  C5 (as amended). For two locations with the same segment before the first hyphen,
  \<^verbatim>\<open>computePackagePath\<close> returns the same path, and so does \<^verbatim>\<open>computeModulesPath\<close> whenever
  the legacy flag is set or the module name is empty. In the remaining case (no legacy flag,
  a module name) \<^verbatim>\<open>computeModulesPath\<close> ends with the whole location, so there the two
  results agree only when the locations are equal.
\<close>

theorem paths_depend_on_segment:
  assumes "segment l1 = segment l2"
  shows "computePackagePath base l1 = computePackagePath base l2
    \<and> (old opts \<or> m = [] \<longrightarrow>
           computeModulesPath base l1 opts m = computeModulesPath base l2 opts m)
    \<and> (\<not> old opts \<and> m \<noteq> [] \<longrightarrow>
           (computeModulesPath base l1 opts m = computeModulesPath base l2 opts m \<longleftrightarrow> l1 = l2))"
  using assms by (auto simp: computePackagePath_def computeModulesPath_def)

theorem paths_depend_on_segment_witness:
  "segment ''server'' = segment ''server-old''
   \<and> computePackagePath ''/app'' ''server'' = computePackagePath ''/app'' ''server-old''
   \<and> computeModulesPath ''/app'' ''server'' \<lparr>old = True\<rparr> ''Billing''
       = computeModulesPath ''/app'' ''server-old'' \<lparr>old = True\<rparr> ''Billing''
   \<and> computeModulesPath ''/app'' ''server'' \<lparr>old = False\<rparr> ''Billing''
       \<noteq> computeModulesPath ''/app'' ''server-old'' \<lparr>old = False\<rparr> ''Billing''"
proof -
  have h: "segment ''server'' = segment ''server-old''"
    by (simp add: segment_def)
  show ?thesis
    using h
      paths_depend_on_segment [OF h, of "''/app''" "\<lparr>old = True\<rparr>" "''Billing''"]
      paths_depend_on_segment [OF h, of "''/app''" "\<lparr>old = False\<rparr>" "''Billing''"]
    by simp
qed

text \<open>
  C5, as the claim states it, fails for \<^verbatim>\<open>computeModulesPath\<close>: \<^verbatim>\<open>server\<close> and \<^verbatim>\<open>server-old\<close>
  have the same leading segment, and without the legacy flag the module \<^verbatim>\<open>Billing\<close> is placed
  at two different paths.
\<close>

theorem computeModulesPath_location_counterexample:
  "segment ''server'' = segment ''server-old''
   \<and> computeModulesPath ''/app'' ''server'' \<lparr>old = False\<rparr> ''Billing'' = ''/app/modules/Billing/server''
   \<and> computeModulesPath ''/app'' ''server-old'' \<lparr>old = False\<rparr> ''Billing'' = ''/app/modules/Billing/server-old''
   \<and> computeModulesPath ''/app'' ''server'' \<lparr>old = False\<rparr> ''Billing''
       \<noteq> computeModulesPath ''/app'' ''server-old'' \<lparr>old = False\<rparr> ''Billing''"
  by (simp add: computeModulesPath_def segment_def)

section \<open>Field-Type Mapper: results\<close>

lemma unmatched_result:
  "unmatched v \<Longrightarrow> generateField v update = (if \<not> update \<and> \<not> optional v then ''!'' else [])"
  by (simp add: unmatched_def recognised_def generateField_def)

text \<open>
  C3 (as amended). For a schema field whose type matches none of the recognised kinds,
  \<^verbatim>\<open>generateField\<close> returns the empty string exactly when the update flag is set or the field
  is optional.
\<close>

theorem generateField_unmatched_empty:
  "unmatched v \<Longrightarrow> (generateField v update = [] \<longleftrightarrow> update \<or> optional v)"
  by (simp add: unmatched_result)

theorem generateField_unmatched_empty_witness:
  "unmatched \<lparr>ftype = \<lparr>self = OtherT 0, ancestors = []\<rparr>, optional = True\<rparr>
   \<and> generateField \<lparr>ftype = \<lparr>self = OtherT 0, ancestors = []\<rparr>, optional = True\<rparr> False = []"
proof -
  have h: "unmatched \<lparr>ftype = \<lparr>self = OtherT 0, ancestors = []\<rparr>, optional = True\<rparr>"
    by (simp add: unmatched_def recognised_def hasTypeOf_def)
  show ?thesis
    using h generateField_unmatched_empty [OF h, of False] by simp
qed

text \<open>
  C3, as the claim states it, fails: a required field of an unrecognised type, outside an
  update, is mapped to \<^verbatim>\<open>!\<close> and not to the empty string.
\<close>

theorem generateField_unmatched_counterexample:
  "unmatched \<lparr>ftype = \<lparr>self = OtherT 0, ancestors = []\<rparr>, optional = False\<rparr>
   \<and> generateField \<lparr>ftype = \<lparr>self = OtherT 0, ancestors = []\<rparr>, optional = False\<rparr> False \<noteq> []"
  by (simp add: unmatched_def recognised_def hasTypeOf_def generateField_def)

text \<open>
  C10. For a schema field whose type matches none of the recognised kinds, with the update
  flag false and the field not optional, \<^verbatim>\<open>generateField\<close> returns exactly \<^verbatim>\<open>!\<close>.
\<close>

theorem generateField_unmatched_required:
  "unmatched v \<Longrightarrow> \<not> update \<Longrightarrow> \<not> optional v \<Longrightarrow> generateField v update = ''!''"
  by (simp add: unmatched_def recognised_def generateField_def)

theorem generateField_unmatched_required_witness:
  "unmatched \<lparr>ftype = \<lparr>self = OtherT 7, ancestors = [OtherT 8]\<rparr>, optional = False\<rparr>
   \<and> generateField \<lparr>ftype = \<lparr>self = OtherT 7, ancestors = [OtherT 8]\<rparr>, optional = False\<rparr> False = ''!''"
proof -
  have h: "unmatched \<lparr>ftype = \<lparr>self = OtherT 7, ancestors = [OtherT 8]\<rparr>, optional = False\<rparr>"
    by (simp add: unmatched_def recognised_def hasTypeOf_def)
  have o: "\<not> optional \<lparr>ftype = \<lparr>self = OtherT 7, ancestors = [OtherT 8]\<rparr>, optional = False\<rparr>"
    by simp
  have u: "\<not> False" by simp
  show ?thesis
    using h generateField_unmatched_required [OF h u o] by simp
qed

section \<open>Replacement: basic facts\<close>







section \<open>Template Materializer: the rename pass\<close>




















section \<open>Export-File Patcher: results\<close>

text \<open>
  C9. For a path at which nothing exists, \<^verbatim>\<open>updateFileWithExports\<close> writes nothing: it
  succeeds and the file system is the one it started from.
\<close>

theorem updateFileWithExports_absent:
  "fs p = None \<Longrightarrow> updateFileWithExports fs p exportName importString = Inr fs"
  by (simp add: updateFileWithExports_def)

theorem updateFileWithExports_absent_witness:
  "Map.empty ''index.js'' = (None :: node option)
   \<and> updateFileWithExports Map.empty ''index.js'' ''Foo'' ''import Foo from './Foo';\<newline>''
       = Inr Map.empty"
proof -
  have h: "(Map.empty :: filesystem) ''index.js'' = None" by simp
  show ?thesis
    using updateFileWithExports_absent [of Map.empty "''index.js''" "''Foo''"
        "''import Foo from './Foo';\<newline>''"] by simp
qed

text \<open>
  C1 (as amended). For a path at which nothing exists, \<^verbatim>\<open>updateFileWithExports\<close> creates
  no file: the path is still absent afterwards. The import string followed by a
  default-export block with only the export name is what it writes to an existing file
  whose trimmed content has at most one character or contains no \<^verbatim>\<open>';\<close>.
\<close>

theorem updateFileWithExports_fresh_block:
  "(fs p = None \<longrightarrow>
      (\<exists>fs'. updateFileWithExports fs p exportName importString = Inr fs' \<and> fs' p = None))
   \<and> (\<forall>d. fs p = Some (File d)
          \<and> (length (trim d) \<le> 1 \<or> lastIndexOf (trim d) [CHR 0x27, CHR '';''] < 0)
        \<longrightarrow> updateFileWithExports fs p exportName importString
              = Inr (fs(p \<mapsto> File (importString
                  @ ''\<newline>export default {\<newline>  '' @ exportName @ ''\<newline>};\<newline>''))))"
  by (auto simp: updateFileWithExports_def exportGraphqlContainer_def Let_def)

theorem updateFileWithExports_fresh_block_witness:
  "(Map.empty :: filesystem) ''index.js'' = None
   \<and> (\<exists>fs'. updateFileWithExports Map.empty ''index.js'' ''Foo'' ''import Foo from './Foo';\<newline>'' = Inr fs'
          \<and> fs' ''index.js'' = None)
   \<and> (Map.empty(''index.js'' \<mapsto> File ''// todo'')) ''index.js'' = Some (File ''// todo'')
   \<and> lastIndexOf (trim ''// todo'') [CHR 0x27, CHR '';''] < 0
   \<and> updateFileWithExports (Map.empty(''index.js'' \<mapsto> File ''// todo'')) ''index.js'' ''Foo''
        ''import Foo from './Foo';\<newline>''
      = Inr (Map.empty(''index.js'' \<mapsto>
          File ''import Foo from './Foo';\<newline>\<newline>export default {\<newline>  Foo\<newline>};\<newline>''))"
proof -
  have a: "(Map.empty :: filesystem) ''index.js'' = None" by simp
  have b: "(Map.empty(''index.js'' \<mapsto> File ''// todo'')) ''index.js'' = Some (File ''// todo'')"
    by simp
  have c: "lastIndexOf (trim ''// todo'') [CHR 0x27, CHR '';''] < 0" by code_simp
  show ?thesis
    using a b c
      updateFileWithExports_fresh_block [of Map.empty "''index.js''" "''Foo''" "''import Foo from './Foo';\<newline>''"]
      updateFileWithExports_fresh_block [of "Map.empty(''index.js'' \<mapsto> File ''// todo'')" "''index.js''"
         "''Foo''" "''import Foo from './Foo';\<newline>''"]
    by simp
qed

text \<open>
  C1, as the claim states it, fails: on the empty file system the call for \<^verbatim>\<open>index.js\<close>
  returns the empty file system, not one where \<^verbatim>\<open>index.js\<close> holds the import and the
  export block.
\<close>

theorem updateFileWithExports_absent_counterexample:
  "updateFileWithExports Map.empty ''index.js'' ''Foo'' ''import Foo from './Foo';\<newline>''
     = Inr Map.empty
   \<and> updateFileWithExports Map.empty ''index.js'' ''Foo'' ''import Foo from './Foo';\<newline>''
     \<noteq> Inr (Map.empty(''index.js'' \<mapsto>
           File ''import Foo from './Foo';\<newline>\<newline>export default {\<newline>  Foo\<newline>};\<newline>''))"
proof -
  have "(Map.empty :: filesystem) \<noteq> Map.empty(''index.js'' \<mapsto>
           File ''import Foo from './Foo';\<newline>\<newline>export default {\<newline>  Foo\<newline>};\<newline>'')"
    by (metis map_upd_nonempty)
  then show ?thesis by (simp add: updateFileWithExports_def)
qed

text \<open>
  C7. If the export file exists with empty content, adding \<^verbatim>\<open>Foo\<close> with the import string
  \<^verbatim>\<open>import Foo from './Foo';\<close> and a line feed writes exactly the import line, an empty
  line and the block \<^verbatim>\<open>export default {\<close>, \<^verbatim>\<open>  Foo\<close>, \<^verbatim>\<open>};\<close> with a final line feed.
\<close>

theorem updateFileWithExports_empty_file:
  "fs p = Some (File []) \<Longrightarrow>
   updateFileWithExports fs p ''Foo'' ''import Foo from './Foo';\<newline>''
     = Inr (fs(p \<mapsto>
         File ''import Foo from './Foo';\<newline>\<newline>export default {\<newline>  Foo\<newline>};\<newline>''))"
  by (simp add: updateFileWithExports_def trim_def exportGraphqlContainer_def)

theorem updateFileWithExports_empty_file_witness:
  "(Map.empty(''index.js'' \<mapsto> File [])) ''index.js'' = Some (File [])
   \<and> updateFileWithExports (Map.empty(''index.js'' \<mapsto> File [])) ''index.js'' ''Foo''
        ''import Foo from './Foo';\<newline>''
     = Inr (Map.empty(''index.js'' \<mapsto>
         File ''import Foo from './Foo';\<newline>\<newline>export default {\<newline>  Foo\<newline>};\<newline>''))"
proof -
  have h: "(Map.empty(''index.js'' \<mapsto> File [])) ''index.js'' = Some (File [])" by simp
  show ?thesis
    using h updateFileWithExports_empty_file [of "Map.empty(''index.js'' \<mapsto> File [])" "''index.js''"]
    by simp
qed

text \<open>
  The steps of adding \<^verbatim>\<open>Foo\<close> to a file that exports \<^verbatim>\<open>FooBar\<close> and removing it again.
\<close>

lemma add_FooBar_trim:
  "trim ''import FooBar from './FooBar';\<newline>\<newline>export default {\<newline>  FooBar\<newline>};\<newline>''
     = ''import FooBar from './FooBar';\<newline>\<newline>export default {\<newline>  FooBar\<newline>};''"
  by code_simp

lemma add_FooBar_index:
  "lastIndexOf ''import FooBar from './FooBar';\<newline>\<newline>export default {\<newline>  FooBar\<newline>};''
     [CHR 0x27, CHR '';''] = 28"
  by code_simp

lemma add_FooBar_tail:
  "replace_all tail_rx 1 (tail_template ''Foo'')
     ''import FooBar from './FooBar';\<newline>import Foo from './Foo';\<newline>\<newline>export default {\<newline>  FooBar\<newline>};''
   = ''import FooBar from './FooBar';\<newline>import Foo from './Foo';\<newline>\<newline>export default {\<newline>  FooBar,\<newline>  Foo\<newline>};''"
  by code_simp

lemma remove_Foo_text:
  "replace_all (delete_rx ''Foo'') 3 []
     ''import FooBar from './FooBar';\<newline>import Foo from './Foo';\<newline>\<newline>export default {\<newline>  FooBar,\<newline>  Foo\<newline>};''
   = ''\<newline>export default {ar,\<newline>};''"
  by code_simp

text \<open>
  C6 at a well-formed export file whose only entry is \<^verbatim>\<open>FooBar\<close>: after \<^verbatim>\<open>Foo\<close> is added
  and removed again, the text handed to the formatter is an export block with the single
  key \<^verbatim>\<open>ar\<close> and no import at all. The pattern of the removal also matches the import line
  of \<^verbatim>\<open>FooBar\<close> and the first characters of its key, because \<^verbatim>\<open>Foo\<close> is a prefix of
  \<^verbatim>\<open>FooBar\<close>; so the other keys are not what they were.
\<close>

theorem add_then_remove_prefix_name:
  "add_then_remove spliced prettier
     (Map.empty(''index.js'' \<mapsto>
        File ''import FooBar from './FooBar';\<newline>\<newline>export default {\<newline>  FooBar\<newline>};\<newline>''))
     ''index.js'' ''Foo'' ''import Foo from './Foo';\<newline>''
   = Inr (Map.empty(''index.js'' \<mapsto> File (prettier ''\<newline>export default {ar,\<newline>};'')))"
  by (simp add: add_then_remove_def updateFileWithExports_def deleteFromFileWithExports_def
      delete_entry_def word_char_def runPrettier_def add_FooBar_trim add_FooBar_index add_FooBar_tail remove_Foo_text
      del: One_nat_def)

section \<open>Template Materializer: the substitution pass\<close>





lemma sublist_drop_right:
  assumes "sublist tok (w @ u)" and "tok \<noteq> []" and "last tok \<notin> set u"
  shows "sublist tok w"
proof -
  from assms(1) consider "sublist tok w" | "sublist tok u"
    | xs1 xs2 where "tok = xs1 @ xs2" "suffix xs1 w" "prefix xs2 u"
    by (auto simp: sublist_append)
  then show ?thesis
  proof cases
    case 1
    then show ?thesis .
  next
    case 2
    then have "set tok \<subseteq> set u" by (rule set_mono_sublist)
    with assms(2,3) show ?thesis using last_in_set by blast
  next
    case 3
    have "xs2 = []"
    proof (rule ccontr)
      assume ne: "xs2 \<noteq> []"
      then have "last tok = last xs2" using 3(1) by simp
      moreover have "last xs2 \<in> set u" using ne 3(3) set_mono_prefix last_in_set by blast
      ultimately show False using assms(3) by simp
    qed
    with 3 show ?thesis by auto
  qed
qed


























end
